theory Spec2Isabelle
  imports Main "HOL-Library.Word"
begin

section \<open>The FraudGuard ledger contract\<close>

text \<open>
  A shallow embedding of the Solidity contract \<open>FraudGuard\<close>: its storage is a record,
  every external function is a function from the call environment, the arguments and the
  storage to either a revert or the new storage. A \<open>require\<close> that fails is a value
  \<open>Inl\<close> carrying the revert message of the source, filed under the error class the
  specification gives it.
\<close>

subsection \<open>Data model\<close>

type_synonym address = "160 word"
type_synonym bytes32 = "256 word"
type_synonym uint256 = "256 word"

datatype TxStatus = Pending | Held | Verified | Rejected | Completed

record Transaction =
  txHash :: bytes32
  sender :: address
  amount :: uint256
  timestamp :: uint256
  status :: TxStatus
  reason :: string

datatype event =
    TxSubmitted bytes32 address uint256 uint256
  | TxHeld bytes32 string uint256
  | TxVerified bytes32 bool string uint256
  | TxCompleted bytes32 uint256

text \<open>
  The storage of the contract: the two role variables, the two mappings (total, as in
  Solidity: a key never written reads as the all-zero value) and the log of emitted events.
\<close>

record FraudGuard =
  owner :: address
  relayer :: address
  transactions :: "bytes32 \<Rightarrow> Transaction"
  authorizedRelayers :: "address \<Rightarrow> bool"
  events :: "event list"

text \<open>What a call sees of its environment: \<open>msg.sender\<close> and \<open>block.timestamp\<close>.\<close>

record env =
  msg_sender :: address
  block_timestamp :: uint256

text \<open>
  The revert of a failed \<open>require\<close>, with its message. The classes are those of the
  specification: the two modifiers raise \<open>AuthorizationError\<close>, a missing record
  \<open>NotFoundError\<close>, a second submission \<open>DuplicateError\<close>, a wrong current status
  \<open>InvalidStateError\<close>, a zero amount or zero address \<open>ValidationError\<close>.
\<close>

datatype error =
    AuthorizationError string
  | NotFoundError string
  | DuplicateError string
  | InvalidStateError string
  | ValidationError string

text \<open>The value of a mapping slot that was never written.\<close>

definition zeroTransaction :: Transaction where
  "zeroTransaction =
     \<lparr>txHash = 0, sender = 0, amount = 0, timestamp = 0, status = Pending, reason = ''''\<rparr>"

subsection \<open>Modifiers and constructor\<close>

definition onlyOwner :: "env \<Rightarrow> FraudGuard \<Rightarrow> bool" where
  "onlyOwner e st \<longleftrightarrow> msg_sender e = owner st"

definition onlyRelayer :: "env \<Rightarrow> FraudGuard \<Rightarrow> bool" where
  "onlyRelayer e st \<longleftrightarrow> msg_sender e = relayer st \<or> authorizedRelayers st (msg_sender e)"

definition constructor :: "env \<Rightarrow> FraudGuard" where
  "constructor e =
     \<lparr>owner = msg_sender e,
      relayer = msg_sender e,
      transactions = (\<lambda>_. zeroTransaction),
      authorizedRelayers = (\<lambda>_. False)(msg_sender e := True),
      events = []\<rparr>"

subsection \<open>The registry operations\<close>

definition submitTxHash ::
  "env \<Rightarrow> bytes32 \<Rightarrow> address \<Rightarrow> uint256 \<Rightarrow> FraudGuard \<Rightarrow> error + FraudGuard" where
  "submitTxHash e h s a st =
     (if \<not> (txHash (transactions st h) = 0) then
        Inl (DuplicateError ''Transaction already exists'')
      else if \<not> (a > 0) then
        Inl (ValidationError ''Amount must be greater than 0'')
      else
        Inr (st\<lparr>transactions := (transactions st)
                   (h := \<lparr>txHash = h, sender = s, amount = a,
                          timestamp = block_timestamp e, status = Pending, reason = ''''\<rparr>),
                 events := events st @ [TxSubmitted h s a (block_timestamp e)]\<rparr>))"

definition setVerification ::
  "env \<Rightarrow> bytes32 \<Rightarrow> bool \<Rightarrow> string \<Rightarrow> FraudGuard \<Rightarrow> error + FraudGuard" where
  "setVerification e h verified r st =
     (if \<not> onlyRelayer e st then
        Inl (AuthorizationError ''Only relayer can call this function'')
      else let txData = transactions st h in
        if \<not> (txHash txData \<noteq> 0) then
          Inl (NotFoundError ''Transaction does not exist'')
        else if verified then
          Inr (st\<lparr>transactions := (transactions st)
                     (h := txData\<lparr>status := Verified, reason := r\<rparr>),
                   events := events st @ [TxVerified h True r (block_timestamp e)]\<rparr>)
        else
          Inr (st\<lparr>transactions := (transactions st)
                     (h := txData\<lparr>status := Rejected, reason := r\<rparr>),
                   events := events st @ [TxVerified h False r (block_timestamp e)]\<rparr>))"

definition holdTransaction ::
  "env \<Rightarrow> bytes32 \<Rightarrow> string \<Rightarrow> FraudGuard \<Rightarrow> error + FraudGuard" where
  "holdTransaction e h r st =
     (if \<not> onlyRelayer e st then
        Inl (AuthorizationError ''Only relayer can call this function'')
      else let txData = transactions st h in
        if \<not> (txHash txData \<noteq> 0) then
          Inl (NotFoundError ''Transaction does not exist'')
        else if \<not> (status txData = Pending) then
          Inl (InvalidStateError ''Transaction is not in pending state'')
        else
          Inr (st\<lparr>transactions := (transactions st)
                     (h := txData\<lparr>status := Held, reason := r\<rparr>),
                   events := events st @ [TxHeld h r (block_timestamp e)]\<rparr>))"

definition releaseHeldTransaction ::
  "env \<Rightarrow> bytes32 \<Rightarrow> bool \<Rightarrow> string \<Rightarrow> FraudGuard \<Rightarrow> error + FraudGuard" where
  "releaseHeldTransaction e h approved r st =
     (if \<not> onlyOwner e st then
        Inl (AuthorizationError ''Only owner can call this function'')
      else let txData = transactions st h in
        if \<not> (txHash txData \<noteq> 0) then
          Inl (NotFoundError ''Transaction does not exist'')
        else if \<not> (status txData = Held) then
          Inl (InvalidStateError ''Transaction is not in held state'')
        else if approved then
          Inr (st\<lparr>transactions := (transactions st)
                     (h := txData\<lparr>status := Verified, reason := r\<rparr>),
                   events := events st @ [TxVerified h True r (block_timestamp e)]\<rparr>)
        else
          Inr (st\<lparr>transactions := (transactions st)
                     (h := txData\<lparr>status := Rejected, reason := r\<rparr>),
                   events := events st @ [TxVerified h False r (block_timestamp e)]\<rparr>))"

definition completeTransaction :: "env \<Rightarrow> bytes32 \<Rightarrow> FraudGuard \<Rightarrow> error + FraudGuard" where
  "completeTransaction e h st =
     (if \<not> onlyOwner e st then
        Inl (AuthorizationError ''Only owner can call this function'')
      else let txData = transactions st h in
        if \<not> (txHash txData \<noteq> 0) then
          Inl (NotFoundError ''Transaction does not exist'')
        else if \<not> (status txData = Verified) then
          Inl (InvalidStateError ''Only verified transactions can be completed'')
        else
          Inr (st\<lparr>transactions := (transactions st) (h := txData\<lparr>status := Completed\<rparr>),
                   events := events st @ [TxCompleted h (block_timestamp e)]\<rparr>))"

subsection \<open>The read operations\<close>

definition isHeld :: "FraudGuard \<Rightarrow> bytes32 \<Rightarrow> bool \<times> string" where
  "isHeld st h = (let txData = transactions st h in (status txData = Held, reason txData))"

definition getTransactionStatus :: "FraudGuard \<Rightarrow> bytes32 \<Rightarrow> string" where
  "getTransactionStatus st h =
     (let txData = transactions st h in
      if txHash txData = 0 then ''NOT_FOUND''
      else if status txData = Pending then ''PENDING''
      else if status txData = Held then ''HELD''
      else if status txData = Verified then ''VERIFIED''
      else if status txData = Rejected then ''REJECTED''
      else if status txData = Completed then ''COMPLETED''
      else ''UNKNOWN'')"

subsection \<open>Access control operations\<close>

definition setRelayer :: "env \<Rightarrow> address \<Rightarrow> bool \<Rightarrow> FraudGuard \<Rightarrow> error + FraudGuard" where
  "setRelayer e r authorized st =
     (if \<not> onlyOwner e st then
        Inl (AuthorizationError ''Only owner can call this function'')
      else if \<not> (r \<noteq> 0) then
        Inl (ValidationError ''Invalid relayer address'')
      else let st1 = st\<lparr>authorizedRelayers := (authorizedRelayers st)(r := authorized)\<rparr> in
        if authorized then Inr (st1\<lparr>relayer := r\<rparr>)
        else if relayer st1 = r then Inr (st1\<lparr>relayer := owner st1\<rparr>)
        else Inr st1)"

definition transferOwnership :: "env \<Rightarrow> address \<Rightarrow> FraudGuard \<Rightarrow> error + FraudGuard" where
  "transferOwnership e newOwner st =
     (if \<not> onlyOwner e st then
        Inl (AuthorizationError ''Only owner can call this function'')
      else if \<not> (newOwner \<noteq> 0) then
        Inl (ValidationError ''Invalid new owner'')
      else Inr (st\<lparr>owner := newOwner\<rparr>))"

subsection \<open>Calls and histories\<close>

text \<open>
  The state-changing external functions as one datatype, so that a history of the ledger
  is a list of calls, each with its environment.
\<close>

datatype call =
    SubmitTxHash bytes32 address uint256
  | SetVerification bytes32 bool string
  | HoldTransaction bytes32 string
  | ReleaseHeldTransaction bytes32 bool string
  | CompleteTransaction bytes32
  | SetRelayer address bool
  | TransferOwnership address

fun exec :: "env \<Rightarrow> call \<Rightarrow> FraudGuard \<Rightarrow> error + FraudGuard" where
  "exec e (SubmitTxHash h s a) st = submitTxHash e h s a st"
| "exec e (SetVerification h v r) st = setVerification e h v r st"
| "exec e (HoldTransaction h r) st = holdTransaction e h r st"
| "exec e (ReleaseHeldTransaction h v r) st = releaseHeldTransaction e h v r st"
| "exec e (CompleteTransaction h) st = completeTransaction e h st"
| "exec e (SetRelayer r b) st = setRelayer e r b st"
| "exec e (TransferOwnership n) st = transferOwnership e n st"

text \<open>
  The storage after a call: a call that reverts leaves the storage (and the event log) as
  it was before the call.
\<close>

definition after :: "env \<times> call \<Rightarrow> FraudGuard \<Rightarrow> FraudGuard" where
  "after c st = (case exec (fst c) (snd c) st of Inl _ \<Rightarrow> st | Inr st' \<Rightarrow> st')"

fun run :: "(env \<times> call) list \<Rightarrow> FraudGuard \<Rightarrow> FraudGuard" where
  "run [] st = st"
| "run (c # cs) st = run cs (after c st)"

text \<open>
  A slot whose \<open>txHash\<close> field is zero still has the status and the reason of a slot
  that was never written. Every history from the constructor keeps this.
\<close>

definition recordsOk :: "FraudGuard \<Rightarrow> bool" where
  "recordsOk st \<longleftrightarrow>
     (\<forall>h. txHash (transactions st h) = 0 \<longrightarrow>
        status (transactions st h) = Pending \<and> reason (transactions st h) = '''')"

section \<open>Properties\<close>

subsection \<open>Histories and what they preserve\<close>

lemmas op_defs = submitTxHash_def setVerification_def holdTransaction_def
  releaseHeldTransaction_def completeTransaction_def setRelayer_def transferOwnership_def
  onlyOwner_def onlyRelayer_def

lemmas eval_defs = after_def op_defs constructor_def zeroTransaction_def Let_def

text \<open>Once the \<open>txHash\<close> field of a slot is nonzero, no call changes it.\<close>

lemma txHash_after:
  "txHash (transactions st h) \<noteq> 0 \<Longrightarrow>
   txHash (transactions (after c st) h) = txHash (transactions st h)"
  by (cases c, cases "snd c")
     (auto simp: after_def op_defs Let_def split: sum.splits if_splits)

lemma txHash_run:
  "txHash (transactions st h) \<noteq> 0 \<Longrightarrow>
   txHash (transactions (run cs st) h) = txHash (transactions st h)"
  by (induction cs arbitrary: st) (simp_all add: txHash_after)

text \<open>The slot of the all-zero hash never gets a nonzero \<open>txHash\<close> field.\<close>

lemma zero_hash_after:
  "txHash (transactions st 0) = 0 \<Longrightarrow> txHash (transactions (after c st) 0) = 0"
  by (cases c, cases "snd c")
     (auto simp: after_def op_defs Let_def split: sum.splits if_splits)

lemma zero_hash_run:
  "txHash (transactions st 0) = 0 \<Longrightarrow> txHash (transactions (run cs st) 0) = 0"
  by (induction cs arbitrary: st) (simp_all add: zero_hash_after)

lemma zero_hash_reachable: "txHash (transactions (run cs (constructor e0)) 0) = 0"
  by (rule zero_hash_run) (simp add: constructor_def zeroTransaction_def)

lemma recordsOk_constructor: "recordsOk (constructor e)"
  by (simp add: recordsOk_def constructor_def zeroTransaction_def)

lemma recordsOk_after: "recordsOk st \<Longrightarrow> recordsOk (after c st)"
  by (cases c, cases "snd c")
     (auto simp: recordsOk_def after_def op_defs Let_def split: sum.splits if_splits)

lemma recordsOk_run: "recordsOk st \<Longrightarrow> recordsOk (run cs st)"
  by (induction cs arbitrary: st) (simp_all add: recordsOk_after)

lemma recordsOk_reachable: "recordsOk (run cs (constructor e))"
  by (simp add: recordsOk_run recordsOk_constructor)

text \<open>Neither role variable becomes the zero address.\<close>

lemma rolesOk_after:
  "owner st \<noteq> 0 \<and> relayer st \<noteq> 0 \<Longrightarrow> owner (after c st) \<noteq> 0 \<and> relayer (after c st) \<noteq> 0"
  by (cases c, cases "snd c")
     (auto simp: after_def op_defs Let_def split: sum.splits if_splits)

lemma rolesOk_run:
  "owner st \<noteq> 0 \<and> relayer st \<noteq> 0 \<Longrightarrow> owner (run cs st) \<noteq> 0 \<and> relayer (run cs st) \<noteq> 0"
proof (induction cs arbitrary: st)
  case Nil
  then show ?case by simp
next
  case (Cons c cs)
  from Cons.prems have "owner (after c st) \<noteq> 0 \<and> relayer (after c st) \<noteq> 0"
    by (rule rolesOk_after)
  then show ?case using Cons.IH by simp
qed

text \<open>
  A record that exists and is Rejected or Completed keeps its status under every call that
  is not a \<open>setVerification\<close> of its hash.
\<close>

lemma terminal_after:
  assumes "txHash (transactions st h) \<noteq> 0"
    and "status (transactions st h) = Rejected \<or> status (transactions st h) = Completed"
    and "\<forall>v r. snd c \<noteq> SetVerification h v r"
  shows "status (transactions (after c st) h) = status (transactions st h)"
  using assms
  by (cases c, cases "snd c")
     (auto simp: after_def op_defs Let_def split: sum.splits if_splits)

lemma terminal_run:
  assumes "txHash (transactions st h) \<noteq> 0"
    and "status (transactions st h) = Rejected \<or> status (transactions st h) = Completed"
    and "\<forall>c\<in>set cs. \<forall>v r. snd c \<noteq> SetVerification h v r"
  shows "status (transactions (run cs st) h) = status (transactions st h)"
  using assms
proof (induction cs arbitrary: st)
  case Nil
  then show ?case by simp
next
  case (Cons c cs)
  have step: "status (transactions (after c st) h) = status (transactions st h)"
    using Cons.prems by (intro terminal_after) simp_all
  have kept: "txHash (transactions (after c st) h) \<noteq> 0"
    using Cons.prems(1) by (simp add: txHash_after)
  have "status (transactions (run cs (after c st)) h) = status (transactions (after c st) h)"
    using Cons.prems(2,3) step kept by (intro Cons.IH) simp_all
  with step show ?case by simp
qed

text \<open>The strings of \<open>getTransactionStatus\<close>, and a history that produces each.\<close>

lemma status_string_cases:
  "getTransactionStatus st h \<in>
     {''NOT_FOUND'', ''PENDING'', ''HELD'', ''VERIFIED'', ''REJECTED'', ''COMPLETED''}"
  by (cases "status (transactions st h)") (simp_all add: getTransactionStatus_def Let_def)

lemma status_string_attained:
  "getTransactionStatus (run [] (constructor e0)) 7 = ''NOT_FOUND''"
  "getTransactionStatus (run [(e0, SubmitTxHash 7 3 100)] (constructor e0)) 7 = ''PENDING''"
  "getTransactionStatus (run [(e0, SubmitTxHash 7 3 100), (e0, HoldTransaction 7 ''review'')]
     (constructor e0)) 7 = ''HELD''"
  "getTransactionStatus (run [(e0, SubmitTxHash 7 3 100), (e0, SetVerification 7 True ''ok'')]
     (constructor e0)) 7 = ''VERIFIED''"
  "getTransactionStatus (run [(e0, SubmitTxHash 7 3 100), (e0, SetVerification 7 False ''no'')]
     (constructor e0)) 7 = ''REJECTED''"
  "getTransactionStatus (run [(e0, SubmitTxHash 7 3 100), (e0, SetVerification 7 True ''ok''),
     (e0, CompleteTransaction 7)] (constructor e0)) 7 = ''COMPLETED''"
  by (simp_all add: eval_defs getTransactionStatus_def)

subsection \<open>Uniqueness of submissions\<close>

text \<open>
  Where the duplicate check of \<open>submitTxHash\<close> works. For every hash \<open>h\<close> other than
  the all-zero hash: once \<open>submitTxHash(h, s, a)\<close> has succeeded, after any further
  history of calls every \<open>submitTxHash(h, s', a')\<close>, by any caller and with any sender
  and amount, reverts with the DuplicateError "Transaction already exists" and leaves the
  storage, and so the record of \<open>h\<close>, as it was.
\<close>

lemma submit_unique:
  assumes "h \<noteq> 0" and "submitTxHash e h s a st = Inr st'"
  shows "submitTxHash e' h s' a' (run cs st') = Inl (DuplicateError ''Transaction already exists'')
       \<and> after (e', SubmitTxHash h s' a') (run cs st') = run cs st'
       \<and> txHash (transactions (run cs st') h) = h"
proof -
  from assms(2) have "txHash (transactions st' h) = h"
    by (auto simp: submitTxHash_def split: if_splits)
  with assms(1) have kept: "txHash (transactions (run cs st') h) = h"
    by (simp add: txHash_run)
  with assms(1) have "submitTxHash e' h s' a' (run cs st')
      = Inl (DuplicateError ''Transaction already exists'')"
    by (simp add: submitTxHash_def)
  then show ?thesis
    using kept by (simp add: after_def)
qed

text \<open>
  An instance at hash 7: submitted on the freshly deployed ledger, held by the deployer,
  then submitted again by somebody else.
\<close>

lemma submit_unique_instance:
  "(7::bytes32) \<noteq> 0
   \<and> submitTxHash \<lparr>msg_sender = 2, block_timestamp = 10\<rparr> 7 3 100
        (constructor \<lparr>msg_sender = 1, block_timestamp = 0\<rparr>)
     = Inr (after (\<lparr>msg_sender = 2, block_timestamp = 10\<rparr>, SubmitTxHash 7 3 100)
        (constructor \<lparr>msg_sender = 1, block_timestamp = 0\<rparr>))
   \<and> submitTxHash \<lparr>msg_sender = 4, block_timestamp = 20\<rparr> 7 5 200
        (run [(\<lparr>msg_sender = 1, block_timestamp = 11\<rparr>, HoldTransaction 7 ''review'')]
          (after (\<lparr>msg_sender = 2, block_timestamp = 10\<rparr>, SubmitTxHash 7 3 100)
            (constructor \<lparr>msg_sender = 1, block_timestamp = 0\<rparr>)))
     = Inl (DuplicateError ''Transaction already exists'')"
proof -
  have nz: "(7::bytes32) \<noteq> 0" by simp
  have ok: "submitTxHash \<lparr>msg_sender = 2, block_timestamp = 10\<rparr> 7 3 100
        (constructor \<lparr>msg_sender = 1, block_timestamp = 0\<rparr>)
     = Inr (after (\<lparr>msg_sender = 2, block_timestamp = 10\<rparr>, SubmitTxHash 7 3 100)
        (constructor \<lparr>msg_sender = 1, block_timestamp = 0\<rparr>))"
    by (simp add: eval_defs)
  show ?thesis
    using nz ok submit_unique [OF nz ok,
      of "\<lparr>msg_sender = 4, block_timestamp = 20\<rparr>" 5 200
         "[(\<lparr>msg_sender = 1, block_timestamp = 11\<rparr>, HoldTransaction 7 ''review'')]"]
    by blast
qed

text \<open>
  C1. Once \<open>submitTxHash(h, s, a)\<close> has succeeded, every later \<open>submitTxHash(h, s', a')\<close>
  is to revert with DuplicateError and leave the record of \<open>h\<close> as it was, for every
  hash \<open>h\<close>: the first \<open>require\<close> of \<open>submitTxHash\<close> and the test "Should prevent
  duplicate transaction submissions" say so. The contract does not do this at the all-zero
  hash. The record written for hash 0 has a zero \<open>txHash\<close> field, which is the very test
  for "no record", and nothing refuses a zero \<open>_txHash\<close>. On the freshly deployed ledger
  \<open>submitTxHash(0, 3, 100)\<close> succeeds, and \<open>submitTxHash(0, 5, 200)\<close> right after it
  succeeds too, with no DuplicateError, and replaces the amount 100 of the first record
  by 200.
\<close>

theorem submit_duplicate_zero_hash:
  "submitTxHash \<lparr>msg_sender = 2, block_timestamp = 10\<rparr> 0 3 100
        (constructor \<lparr>msg_sender = 1, block_timestamp = 0\<rparr>)
     = Inr (after (\<lparr>msg_sender = 2, block_timestamp = 10\<rparr>, SubmitTxHash 0 3 100)
        (constructor \<lparr>msg_sender = 1, block_timestamp = 0\<rparr>))
   \<and> submitTxHash \<lparr>msg_sender = 4, block_timestamp = 20\<rparr> 0 5 200
        (after (\<lparr>msg_sender = 2, block_timestamp = 10\<rparr>, SubmitTxHash 0 3 100)
            (constructor \<lparr>msg_sender = 1, block_timestamp = 0\<rparr>))
     = Inr (after (\<lparr>msg_sender = 4, block_timestamp = 20\<rparr>, SubmitTxHash 0 5 200)
        (after (\<lparr>msg_sender = 2, block_timestamp = 10\<rparr>, SubmitTxHash 0 3 100)
            (constructor \<lparr>msg_sender = 1, block_timestamp = 0\<rparr>)))
   \<and> submitTxHash \<lparr>msg_sender = 4, block_timestamp = 20\<rparr> 0 5 200
        (after (\<lparr>msg_sender = 2, block_timestamp = 10\<rparr>, SubmitTxHash 0 3 100)
            (constructor \<lparr>msg_sender = 1, block_timestamp = 0\<rparr>))
     \<noteq> Inl (DuplicateError ''Transaction already exists'')
   \<and> amount (transactions
        (after (\<lparr>msg_sender = 2, block_timestamp = 10\<rparr>, SubmitTxHash 0 3 100)
            (constructor \<lparr>msg_sender = 1, block_timestamp = 0\<rparr>)) 0) = 100
   \<and> amount (transactions
        (after (\<lparr>msg_sender = 4, block_timestamp = 20\<rparr>, SubmitTxHash 0 5 200)
          (after (\<lparr>msg_sender = 2, block_timestamp = 10\<rparr>, SubmitTxHash 0 3 100)
            (constructor \<lparr>msg_sender = 1, block_timestamp = 0\<rparr>))) 0) = 200"
  by (simp add: eval_defs)

subsection \<open>Terminal statuses\<close>

text \<open>
  C2 (as amended). In every state reachable from the constructor, a record whose status is
  Rejected or Completed keeps that status through every history of calls that contains no
  \<open>setVerification\<close> of its hash: \<open>submitTxHash\<close>, \<open>holdTransaction\<close>,
  \<open>releaseHeldTransaction\<close>, \<open>completeTransaction\<close>, \<open>setRelayer\<close>,
  \<open>transferOwnership\<close> and \<open>setVerification\<close> of other hashes never change it.
\<close>

theorem terminal_status_kept:
  assumes "status (transactions (run cs0 (constructor e0)) h) = Rejected
         \<or> status (transactions (run cs0 (constructor e0)) h) = Completed"
    and "\<forall>c\<in>set cs. \<forall>v r. snd c \<noteq> SetVerification h v r"
  shows "status (transactions (run cs (run cs0 (constructor e0))) h)
       = status (transactions (run cs0 (constructor e0)) h)"
proof -
  have "recordsOk (run cs0 (constructor e0))"
    by (rule recordsOk_reachable)
  with assms(1) have "txHash (transactions (run cs0 (constructor e0)) h) \<noteq> 0"
    by (auto simp: recordsOk_def)
  then show ?thesis
    using assms by (rule terminal_run)
qed

text \<open>
  An instance: hash 7 is submitted and rejected by the deployer; the deployer then tries to
  hold, release and complete it, and somebody submits it again. It stays Rejected.
\<close>

theorem terminal_status_kept_witness:
  "status (transactions (run
      [(\<lparr>msg_sender = 2, block_timestamp = 10\<rparr>, SubmitTxHash 7 3 100),
       (\<lparr>msg_sender = 1, block_timestamp = 11\<rparr>, SetVerification 7 False ''fraud'')]
      (constructor \<lparr>msg_sender = 1, block_timestamp = 0\<rparr>)) 7) = Rejected
   \<and> status (transactions (run
      [(\<lparr>msg_sender = 1, block_timestamp = 12\<rparr>, HoldTransaction 7 ''again''),
       (\<lparr>msg_sender = 1, block_timestamp = 13\<rparr>, ReleaseHeldTransaction 7 True ''ok''),
       (\<lparr>msg_sender = 1, block_timestamp = 14\<rparr>, CompleteTransaction 7),
       (\<lparr>msg_sender = 2, block_timestamp = 15\<rparr>, SubmitTxHash 7 3 100)]
      (run
      [(\<lparr>msg_sender = 2, block_timestamp = 10\<rparr>, SubmitTxHash 7 3 100),
       (\<lparr>msg_sender = 1, block_timestamp = 11\<rparr>, SetVerification 7 False ''fraud'')]
      (constructor \<lparr>msg_sender = 1, block_timestamp = 0\<rparr>))) 7) = Rejected"
proof -
  have a: "status (transactions (run
      [(\<lparr>msg_sender = 2, block_timestamp = 10\<rparr>, SubmitTxHash 7 3 100),
       (\<lparr>msg_sender = 1, block_timestamp = 11\<rparr>, SetVerification 7 False ''fraud'')]
      (constructor \<lparr>msg_sender = 1, block_timestamp = 0\<rparr>)) 7) = Rejected"
    by (simp add: eval_defs)
  have b: "\<forall>c\<in>set
      [(\<lparr>msg_sender = 1, block_timestamp = 12\<rparr>, HoldTransaction 7 ''again''),
       (\<lparr>msg_sender = 1, block_timestamp = 13\<rparr>, ReleaseHeldTransaction 7 True ''ok''),
       (\<lparr>msg_sender = 1, block_timestamp = 14\<rparr>, CompleteTransaction 7),
       (\<lparr>msg_sender = 2, block_timestamp = 15\<rparr>, SubmitTxHash (7::bytes32) 3 100)].
     \<forall>v r. snd c \<noteq> SetVerification 7 v r"
    by simp
  show ?thesis
    using a terminal_status_kept [OF disjI1 [OF a] b] by simp
qed

text \<open>
  The claim as first stated, for every operation, fails for \<open>setVerification\<close>, which has
  no check of the current status: called by the relayer it turns a Rejected record into a
  Verified one, and a Completed record into a Rejected one.
\<close>

theorem terminal_setVerification_counterexample:
  "status (transactions (run
      [(\<lparr>msg_sender = 2, block_timestamp = 10\<rparr>, SubmitTxHash 7 3 100),
       (\<lparr>msg_sender = 1, block_timestamp = 11\<rparr>, SetVerification 7 False ''fraud'')]
      (constructor \<lparr>msg_sender = 1, block_timestamp = 0\<rparr>)) 7) = Rejected
   \<and> status (transactions (run
      [(\<lparr>msg_sender = 2, block_timestamp = 10\<rparr>, SubmitTxHash 7 3 100),
       (\<lparr>msg_sender = 1, block_timestamp = 11\<rparr>, SetVerification 7 False ''fraud''),
       (\<lparr>msg_sender = 1, block_timestamp = 12\<rparr>, SetVerification 7 True ''fine'')]
      (constructor \<lparr>msg_sender = 1, block_timestamp = 0\<rparr>)) 7) = Verified
   \<and> status (transactions (run
      [(\<lparr>msg_sender = 2, block_timestamp = 10\<rparr>, SubmitTxHash 7 3 100),
       (\<lparr>msg_sender = 1, block_timestamp = 11\<rparr>, SetVerification 7 True ''fine''),
       (\<lparr>msg_sender = 1, block_timestamp = 12\<rparr>, CompleteTransaction 7)]
      (constructor \<lparr>msg_sender = 1, block_timestamp = 0\<rparr>)) 7) = Completed
   \<and> status (transactions (run
      [(\<lparr>msg_sender = 2, block_timestamp = 10\<rparr>, SubmitTxHash 7 3 100),
       (\<lparr>msg_sender = 1, block_timestamp = 11\<rparr>, SetVerification 7 True ''fine''),
       (\<lparr>msg_sender = 1, block_timestamp = 12\<rparr>, CompleteTransaction 7),
       (\<lparr>msg_sender = 1, block_timestamp = 13\<rparr>, SetVerification 7 False ''late'')]
      (constructor \<lparr>msg_sender = 1, block_timestamp = 0\<rparr>)) 7) = Rejected"
  by (simp add: eval_defs)

subsection \<open>Verification without a status guard\<close>

text \<open>
  C3. \<open>setVerification(h, verified, reason)\<close>, called by the primary relayer or an
  authorized relayer on a record that exists, succeeds whatever the current status is,
  sets the status to Verified if \<open>verified\<close> and to Rejected otherwise, and stores the
  reason.
\<close>

theorem setVerification_any_status:
  assumes "msg_sender e = relayer st \<or> authorizedRelayers st (msg_sender e)"
    and "txHash (transactions st h) \<noteq> 0"
  shows "\<exists>st'. setVerification e h verified r st = Inr st'
           \<and> status (transactions st' h) = (if verified then Verified else Rejected)
           \<and> reason (transactions st' h) = r"
  using assms by (simp add: setVerification_def onlyRelayer_def Let_def)

text \<open>An instance on a Completed record, which becomes Rejected.\<close>

theorem setVerification_any_status_witness:
  "status (transactions (run
      [(\<lparr>msg_sender = 2, block_timestamp = 10\<rparr>, SubmitTxHash 7 3 100),
       (\<lparr>msg_sender = 1, block_timestamp = 11\<rparr>, SetVerification 7 True ''fine''),
       (\<lparr>msg_sender = 1, block_timestamp = 12\<rparr>, CompleteTransaction 7)]
      (constructor \<lparr>msg_sender = 1, block_timestamp = 0\<rparr>)) 7) = Completed
   \<and> (\<exists>st'. setVerification \<lparr>msg_sender = 1, block_timestamp = 13\<rparr> 7 False ''late''
        (run
          [(\<lparr>msg_sender = 2, block_timestamp = 10\<rparr>, SubmitTxHash 7 3 100),
           (\<lparr>msg_sender = 1, block_timestamp = 11\<rparr>, SetVerification 7 True ''fine''),
           (\<lparr>msg_sender = 1, block_timestamp = 12\<rparr>, CompleteTransaction 7)]
          (constructor \<lparr>msg_sender = 1, block_timestamp = 0\<rparr>)) = Inr st'
        \<and> status (transactions st' 7) = Rejected
        \<and> reason (transactions st' 7) = ''late'')"
proof -
  let ?st = "run
      [(\<lparr>msg_sender = 2, block_timestamp = 10\<rparr>, SubmitTxHash 7 3 100),
       (\<lparr>msg_sender = 1, block_timestamp = 11\<rparr>, SetVerification 7 True ''fine''),
       (\<lparr>msg_sender = 1, block_timestamp = 12\<rparr>, CompleteTransaction 7)]
      (constructor \<lparr>msg_sender = 1, block_timestamp = 0\<rparr>)"
  have c: "status (transactions ?st 7) = Completed"
    by (simp add: eval_defs)
  have a: "msg_sender \<lparr>msg_sender = 1, block_timestamp = 13\<rparr> = relayer ?st
         \<or> authorizedRelayers ?st (msg_sender \<lparr>msg_sender = 1, block_timestamp = 13\<rparr>)"
    by (simp add: eval_defs)
  have x: "txHash (transactions ?st 7) \<noteq> 0"
    by (simp add: eval_defs)
  show ?thesis
    using c setVerification_any_status [OF a x, of False "''late''"] by simp
qed

subsection \<open>State-guarded transitions\<close>

text \<open>
  C4. On a record that exists: \<open>holdTransaction\<close> called by a relayer succeeds if and only
  if the status is Pending; \<open>releaseHeldTransaction\<close> called by the owner succeeds if and
  only if the status is Held; \<open>completeTransaction\<close> called by the owner succeeds if and
  only if the status is Verified. From any other status each of them reverts with its
  InvalidStateError and the storage, and so the status, stays as it was.
\<close>

theorem state_guarded_transitions:
  assumes "txHash (transactions st h) \<noteq> 0"
  shows "(msg_sender e = relayer st \<or> authorizedRelayers st (msg_sender e) \<longrightarrow>
            ((\<exists>st'. holdTransaction e h r st = Inr st') \<longleftrightarrow> status (transactions st h) = Pending)
          \<and> (status (transactions st h) \<noteq> Pending \<longrightarrow>
               holdTransaction e h r st
                 = Inl (InvalidStateError ''Transaction is not in pending state'')
             \<and> after (e, HoldTransaction h r) st = st))
       \<and> (msg_sender e = owner st \<longrightarrow>
            ((\<exists>st'. releaseHeldTransaction e h approved r st = Inr st')
               \<longleftrightarrow> status (transactions st h) = Held)
          \<and> (status (transactions st h) \<noteq> Held \<longrightarrow>
               releaseHeldTransaction e h approved r st
                 = Inl (InvalidStateError ''Transaction is not in held state'')
             \<and> after (e, ReleaseHeldTransaction h approved r) st = st)
          \<and> ((\<exists>st'. completeTransaction e h st = Inr st')
               \<longleftrightarrow> status (transactions st h) = Verified)
          \<and> (status (transactions st h) \<noteq> Verified \<longrightarrow>
               completeTransaction e h st
                 = Inl (InvalidStateError ''Only verified transactions can be completed'')
             \<and> after (e, CompleteTransaction h) st = st))"
  using assms by (simp add: after_def op_defs Let_def)

text \<open>
  An instance on a Pending record, with the deployer (owner and relayer) calling: the hold
  succeeds, the release and the completion revert.
\<close>

theorem state_guarded_transitions_witness:
  "txHash (transactions (run
      [(\<lparr>msg_sender = 2, block_timestamp = 10\<rparr>, SubmitTxHash 7 3 100)]
      (constructor \<lparr>msg_sender = 1, block_timestamp = 0\<rparr>)) 7) \<noteq> 0
   \<and> status (transactions (run
      [(\<lparr>msg_sender = 2, block_timestamp = 10\<rparr>, SubmitTxHash 7 3 100)]
      (constructor \<lparr>msg_sender = 1, block_timestamp = 0\<rparr>)) 7) = Pending
   \<and> (\<exists>st'. holdTransaction \<lparr>msg_sender = 1, block_timestamp = 11\<rparr> 7 ''manual review''
        (run [(\<lparr>msg_sender = 2, block_timestamp = 10\<rparr>, SubmitTxHash 7 3 100)]
          (constructor \<lparr>msg_sender = 1, block_timestamp = 0\<rparr>)) = Inr st')
   \<and> releaseHeldTransaction \<lparr>msg_sender = 1, block_timestamp = 11\<rparr> 7 True ''manual review''
        (run [(\<lparr>msg_sender = 2, block_timestamp = 10\<rparr>, SubmitTxHash 7 3 100)]
          (constructor \<lparr>msg_sender = 1, block_timestamp = 0\<rparr>))
      = Inl (InvalidStateError ''Transaction is not in held state'')
   \<and> completeTransaction \<lparr>msg_sender = 1, block_timestamp = 11\<rparr> 7
        (run [(\<lparr>msg_sender = 2, block_timestamp = 10\<rparr>, SubmitTxHash 7 3 100)]
          (constructor \<lparr>msg_sender = 1, block_timestamp = 0\<rparr>))
      = Inl (InvalidStateError ''Only verified transactions can be completed'')"
proof -
  let ?st = "run [(\<lparr>msg_sender = 2, block_timestamp = 10\<rparr>, SubmitTxHash 7 3 100)]
      (constructor \<lparr>msg_sender = 1, block_timestamp = 0\<rparr>)"
  let ?e = "\<lparr>msg_sender = 1, block_timestamp = 11\<rparr>"
  have x: "txHash (transactions ?st 7) \<noteq> 0"
    by (simp add: eval_defs)
  have s: "status (transactions ?st 7) = Pending"
    by (simp add: eval_defs)
  have r: "msg_sender ?e = relayer ?st \<or> authorizedRelayers ?st (msg_sender ?e)"
    by (simp add: eval_defs)
  have o: "msg_sender ?e = owner ?st"
    by (simp add: eval_defs)
  have nh: "status (transactions ?st 7) \<noteq> Held"
    and nv: "status (transactions ?st 7) \<noteq> Verified"
    by (simp_all add: eval_defs)
  from state_guarded_transitions [OF x, of ?e "''manual review''" True] r o s nh nv
  have "(\<exists>st'. holdTransaction ?e 7 ''manual review'' ?st = Inr st')
      \<and> releaseHeldTransaction ?e 7 True ''manual review'' ?st
          = Inl (InvalidStateError ''Transaction is not in held state'')
      \<and> completeTransaction ?e 7 ?st
          = Inl (InvalidStateError ''Only verified transactions can be completed'')"
    by blast
  with x s show ?thesis by blast
qed

subsection \<open>Role gating\<close>

text \<open>
  C5. The relayer-only operations \<open>setVerification\<close> and \<open>holdTransaction\<close>, called by an
  address that is neither the primary relayer nor in \<open>authorizedRelayers\<close>, revert with
  the AuthorizationError of \<open>onlyRelayer\<close>; the owner-only operations
  \<open>releaseHeldTransaction\<close>, \<open>completeTransaction\<close>, \<open>setRelayer\<close> and
  \<open>transferOwnership\<close>, called by an address other than the owner, revert with the
  AuthorizationError of \<open>onlyOwner\<close>. This holds for every argument and every storage,
  and the whole storage is left as it was.
\<close>

theorem role_gating:
  "(msg_sender e \<noteq> relayer st \<and> \<not> authorizedRelayers st (msg_sender e) \<longrightarrow>
      setVerification e h v r st
        = Inl (AuthorizationError ''Only relayer can call this function'')
    \<and> holdTransaction e h r st
        = Inl (AuthorizationError ''Only relayer can call this function'')
    \<and> after (e, SetVerification h v r) st = st
    \<and> after (e, HoldTransaction h r) st = st)
 \<and> (msg_sender e \<noteq> owner st \<longrightarrow>
      releaseHeldTransaction e h v r st
        = Inl (AuthorizationError ''Only owner can call this function'')
    \<and> completeTransaction e h st
        = Inl (AuthorizationError ''Only owner can call this function'')
    \<and> setRelayer e a b st
        = Inl (AuthorizationError ''Only owner can call this function'')
    \<and> transferOwnership e a st
        = Inl (AuthorizationError ''Only owner can call this function'')
    \<and> after (e, ReleaseHeldTransaction h v r) st = st
    \<and> after (e, CompleteTransaction h) st = st
    \<and> after (e, SetRelayer a b) st = st
    \<and> after (e, TransferOwnership a) st = st)"
  by (simp add: after_def op_defs)

text \<open>An instance: address 9 calls on the ledger deployed by address 1.\<close>

theorem role_gating_witness:
  "msg_sender \<lparr>msg_sender = 9, block_timestamp = 5\<rparr>
     \<noteq> relayer (constructor \<lparr>msg_sender = 1, block_timestamp = 0\<rparr>)
   \<and> \<not> authorizedRelayers (constructor \<lparr>msg_sender = 1, block_timestamp = 0\<rparr>)
         (msg_sender \<lparr>msg_sender = 9, block_timestamp = 5\<rparr>)
   \<and> msg_sender \<lparr>msg_sender = 9, block_timestamp = 5\<rparr>
     \<noteq> owner (constructor \<lparr>msg_sender = 1, block_timestamp = 0\<rparr>)
   \<and> setVerification \<lparr>msg_sender = 9, block_timestamp = 5\<rparr> 7 True ''x''
        (constructor \<lparr>msg_sender = 1, block_timestamp = 0\<rparr>)
      = Inl (AuthorizationError ''Only relayer can call this function'')
   \<and> holdTransaction \<lparr>msg_sender = 9, block_timestamp = 5\<rparr> 7 ''x''
        (constructor \<lparr>msg_sender = 1, block_timestamp = 0\<rparr>)
      = Inl (AuthorizationError ''Only relayer can call this function'')
   \<and> transferOwnership \<lparr>msg_sender = 9, block_timestamp = 5\<rparr> 9
        (constructor \<lparr>msg_sender = 1, block_timestamp = 0\<rparr>)
      = Inl (AuthorizationError ''Only owner can call this function'')
   \<and> setRelayer \<lparr>msg_sender = 9, block_timestamp = 5\<rparr> 9 True
        (constructor \<lparr>msg_sender = 1, block_timestamp = 0\<rparr>)
      = Inl (AuthorizationError ''Only owner can call this function'')"
proof -
  let ?st = "constructor \<lparr>msg_sender = 1, block_timestamp = 0\<rparr>"
  let ?e = "\<lparr>msg_sender = 9, block_timestamp = 5\<rparr>"
  have r: "msg_sender ?e \<noteq> relayer ?st \<and> \<not> authorizedRelayers ?st (msg_sender ?e)"
    by (simp add: constructor_def)
  have o: "msg_sender ?e \<noteq> owner ?st"
    by (simp add: constructor_def)
  from role_gating [of ?e ?st 7 True "''x''" 9 True] r o
  show ?thesis by blast
qed

subsection \<open>The read operations\<close>

text \<open>
  C6. The read operations are total functions of the storage and the hash.
  \<open>getTransactionStatus\<close> returns one of the six strings NOT_FOUND, PENDING, HELD,
  VERIFIED, REJECTED, COMPLETED, and NOT_FOUND when there is no record for the hash (the
  \<open>txHash\<close> field of its slot is zero); each of the six is returned in some state
  reachable from the constructor. In every reachable state \<open>isHeld\<close> of a hash without a
  record returns \<open>(false, "")\<close>.
\<close>

theorem reads_total:
  "getTransactionStatus st h \<in>
     {''NOT_FOUND'', ''PENDING'', ''HELD'', ''VERIFIED'', ''REJECTED'', ''COMPLETED''}
 \<and> (txHash (transactions st h) = 0 \<longrightarrow> getTransactionStatus st h = ''NOT_FOUND'')
 \<and> (txHash (transactions (run cs (constructor e0)) h) = 0 \<longrightarrow>
      isHeld (run cs (constructor e0)) h = (False, ''''))
 \<and> (\<forall>s \<in> {''NOT_FOUND'', ''PENDING'', ''HELD'', ''VERIFIED'', ''REJECTED'', ''COMPLETED''}.
      \<exists>cs' h'. getTransactionStatus (run cs' (constructor e0)) h' = s)"
proof -
  have "recordsOk (run cs (constructor e0))"
    by (rule recordsOk_reachable)
  then have held: "txHash (transactions (run cs (constructor e0)) h) = 0 \<longrightarrow>
      isHeld (run cs (constructor e0)) h = (False, '''')"
    by (simp add: recordsOk_def isHeld_def Let_def)
  have absent: "txHash (transactions st h) = 0 \<longrightarrow> getTransactionStatus st h = ''NOT_FOUND''"
    by (simp add: getTransactionStatus_def)
  have "\<exists>cs' h'. getTransactionStatus (run cs' (constructor e0)) h' = ''NOT_FOUND''"
    using status_string_attained(1) by blast
  moreover have "\<exists>cs' h'. getTransactionStatus (run cs' (constructor e0)) h' = ''PENDING''"
    using status_string_attained(2) by blast
  moreover have "\<exists>cs' h'. getTransactionStatus (run cs' (constructor e0)) h' = ''HELD''"
    using status_string_attained(3) by blast
  moreover have "\<exists>cs' h'. getTransactionStatus (run cs' (constructor e0)) h' = ''VERIFIED''"
    using status_string_attained(4) by blast
  moreover have "\<exists>cs' h'. getTransactionStatus (run cs' (constructor e0)) h' = ''REJECTED''"
    using status_string_attained(5) by blast
  moreover have "\<exists>cs' h'. getTransactionStatus (run cs' (constructor e0)) h' = ''COMPLETED''"
    using status_string_attained(6) by blast
  ultimately have
    "\<forall>s \<in> {''NOT_FOUND'', ''PENDING'', ''HELD'', ''VERIFIED'', ''REJECTED'', ''COMPLETED''}.
      \<exists>cs' h'. getTransactionStatus (run cs' (constructor e0)) h' = s"
    by simp
  with held absent status_string_cases [of st h] show ?thesis
    by blast
qed

text \<open>An instance: hash 8 on a ledger that only holds a record for hash 7.\<close>

theorem reads_total_witness:
  "txHash (transactions (run
      [(\<lparr>msg_sender = 2, block_timestamp = 10\<rparr>, SubmitTxHash 7 3 100)]
      (constructor \<lparr>msg_sender = 1, block_timestamp = 0\<rparr>)) 8) = 0
 \<and> getTransactionStatus (run
      [(\<lparr>msg_sender = 2, block_timestamp = 10\<rparr>, SubmitTxHash 7 3 100)]
      (constructor \<lparr>msg_sender = 1, block_timestamp = 0\<rparr>)) 8 = ''NOT_FOUND''
 \<and> isHeld (run
      [(\<lparr>msg_sender = 2, block_timestamp = 10\<rparr>, SubmitTxHash 7 3 100)]
      (constructor \<lparr>msg_sender = 1, block_timestamp = 0\<rparr>)) 8 = (False, '''')
 \<and> ''HELD'' \<in> {''NOT_FOUND'', ''PENDING'', ''HELD'', ''VERIFIED'', ''REJECTED'', ''COMPLETED''}
 \<and> (\<exists>cs' h'. getTransactionStatus
        (run cs' (constructor \<lparr>msg_sender = 1, block_timestamp = 0\<rparr>)) h' = ''HELD'')"
proof -
  have a: "txHash (transactions (run
      [(\<lparr>msg_sender = 2, block_timestamp = 10\<rparr>, SubmitTxHash 7 3 100)]
      (constructor \<lparr>msg_sender = 1, block_timestamp = 0\<rparr>)) 8) = 0"
    by (simp add: eval_defs)
  have b: "''HELD'' \<in>
      {''NOT_FOUND'', ''PENDING'', ''HELD'', ''VERIFIED'', ''REJECTED'', ''COMPLETED''}"
    by simp
  show ?thesis
    using a b reads_total [of "run
      [(\<lparr>msg_sender = 2, block_timestamp = 10\<rparr>, SubmitTxHash 7 3 100)]
      (constructor \<lparr>msg_sender = 1, block_timestamp = 0\<rparr>)" 8
      "[(\<lparr>msg_sender = 2, block_timestamp = 10\<rparr>, SubmitTxHash 7 3 100)]"
      "\<lparr>msg_sender = 1, block_timestamp = 0\<rparr>"]
    by blast
qed

subsection \<open>Zero amounts\<close>

text \<open>
  C7 (as amended). For every hash, sender, caller and storage, \<open>submitTxHash(h, s, 0)\<close>
  reverts and the storage stays as it was, so no record is created: with the
  ValidationError "Amount must be greater than 0" when there is no record for \<open>h\<close>, and
  with the DuplicateError "Transaction already exists", which is checked first, when
  there is one.
\<close>

theorem submit_zero_amount:
  "(txHash (transactions st h) = 0 \<longrightarrow>
      submitTxHash e h s 0 st = Inl (ValidationError ''Amount must be greater than 0''))
 \<and> (txHash (transactions st h) \<noteq> 0 \<longrightarrow>
      submitTxHash e h s 0 st = Inl (DuplicateError ''Transaction already exists''))
 \<and> after (e, SubmitTxHash h s 0) st = st"
  by (simp add: after_def submitTxHash_def)

text \<open>Two instances: hash 7 before and after it is submitted with amount 100.\<close>

theorem submit_zero_amount_witness:
  "txHash (transactions (constructor \<lparr>msg_sender = 1, block_timestamp = 0\<rparr>) 7) = 0
 \<and> submitTxHash \<lparr>msg_sender = 2, block_timestamp = 10\<rparr> 7 3 0
      (constructor \<lparr>msg_sender = 1, block_timestamp = 0\<rparr>)
    = Inl (ValidationError ''Amount must be greater than 0'')
 \<and> txHash (transactions (run
      [(\<lparr>msg_sender = 2, block_timestamp = 10\<rparr>, SubmitTxHash 7 3 100)]
      (constructor \<lparr>msg_sender = 1, block_timestamp = 0\<rparr>)) 7) \<noteq> 0
 \<and> submitTxHash \<lparr>msg_sender = 2, block_timestamp = 11\<rparr> 7 3 0
      (run [(\<lparr>msg_sender = 2, block_timestamp = 10\<rparr>, SubmitTxHash 7 3 100)]
        (constructor \<lparr>msg_sender = 1, block_timestamp = 0\<rparr>))
    = Inl (DuplicateError ''Transaction already exists'')"
proof -
  let ?st0 = "constructor \<lparr>msg_sender = 1, block_timestamp = 0\<rparr>"
  let ?st1 = "run [(\<lparr>msg_sender = 2, block_timestamp = 10\<rparr>, SubmitTxHash 7 3 100)] ?st0"
  have a: "txHash (transactions ?st0 7) = 0"
    by (simp add: constructor_def zeroTransaction_def)
  have b: "txHash (transactions ?st1 7) \<noteq> 0"
    by (simp add: eval_defs)
  from a b submit_zero_amount [of ?st0 7 "\<lparr>msg_sender = 2, block_timestamp = 10\<rparr>" 3]
    submit_zero_amount [of ?st1 7 "\<lparr>msg_sender = 2, block_timestamp = 11\<rparr>" 3]
  show ?thesis by blast
qed

text \<open>
  The claim as first stated, with ValidationError in every state, fails where the hash
  already has a record: the submission of amount 0 is then refused as a duplicate.
\<close>

theorem submit_zero_amount_counterexample:
  "submitTxHash \<lparr>msg_sender = 2, block_timestamp = 10\<rparr> 7 3 100
      (constructor \<lparr>msg_sender = 1, block_timestamp = 0\<rparr>)
    = Inr (after (\<lparr>msg_sender = 2, block_timestamp = 10\<rparr>, SubmitTxHash 7 3 100)
        (constructor \<lparr>msg_sender = 1, block_timestamp = 0\<rparr>))
 \<and> submitTxHash \<lparr>msg_sender = 2, block_timestamp = 11\<rparr> 7 3 0
      (after (\<lparr>msg_sender = 2, block_timestamp = 10\<rparr>, SubmitTxHash 7 3 100)
        (constructor \<lparr>msg_sender = 1, block_timestamp = 0\<rparr>))
    = Inl (DuplicateError ''Transaction already exists'')
 \<and> submitTxHash \<lparr>msg_sender = 2, block_timestamp = 11\<rparr> 7 3 0
      (after (\<lparr>msg_sender = 2, block_timestamp = 10\<rparr>, SubmitTxHash 7 3 100)
        (constructor \<lparr>msg_sender = 1, block_timestamp = 0\<rparr>))
    \<noteq> Inl (ValidationError ''Amount must be greater than 0'')"
  by (simp add: eval_defs)

subsection \<open>The roles are never the zero address\<close>

text \<open>
  C8. If the deployer is not the zero address, then after every history of calls from the
  constructor the owner is not the zero address and the primary relayer is not the zero
  address. In particular this still holds after one more \<open>transferOwnership\<close> or
  \<open>setRelayer\<close>, whoever calls it and with whatever arguments, the fallback of
  \<open>setRelayer\<close> to the owner included.
\<close>

theorem roles_never_zero:
  assumes "msg_sender e0 \<noteq> 0"
  shows "owner (run cs (constructor e0)) \<noteq> 0 \<and> relayer (run cs (constructor e0)) \<noteq> 0
       \<and> owner (after (e, TransferOwnership n) (run cs (constructor e0))) \<noteq> 0
       \<and> relayer (after (e, TransferOwnership n) (run cs (constructor e0))) \<noteq> 0
       \<and> owner (after (e, SetRelayer a b) (run cs (constructor e0))) \<noteq> 0
       \<and> relayer (after (e, SetRelayer a b) (run cs (constructor e0))) \<noteq> 0"
proof -
  from assms have "owner (constructor e0) \<noteq> 0 \<and> relayer (constructor e0) \<noteq> 0"
    by (simp add: constructor_def)
  then have now: "owner (run cs (constructor e0)) \<noteq> 0 \<and> relayer (run cs (constructor e0)) \<noteq> 0"
    by (rule rolesOk_run)
  from now rolesOk_after [OF now, of "(e, TransferOwnership n)"]
    rolesOk_after [OF now, of "(e, SetRelayer a b)"]
  show ?thesis by simp
qed

text \<open>
  An instance: the deployer, address 1, makes address 5 the primary relayer and transfers
  the ownership to address 6, who then removes relayer 5 (the fallback) and tries to
  hand the ownership to the zero address.
\<close>

theorem roles_never_zero_witness:
  "msg_sender \<lparr>msg_sender = 1, block_timestamp = 0\<rparr> \<noteq> 0
 \<and> owner (run
      [(\<lparr>msg_sender = 1, block_timestamp = 1\<rparr>, SetRelayer 5 True),
       (\<lparr>msg_sender = 1, block_timestamp = 2\<rparr>, TransferOwnership 6)]
      (constructor \<lparr>msg_sender = 1, block_timestamp = 0\<rparr>)) \<noteq> 0
 \<and> relayer (run
      [(\<lparr>msg_sender = 1, block_timestamp = 1\<rparr>, SetRelayer 5 True),
       (\<lparr>msg_sender = 1, block_timestamp = 2\<rparr>, TransferOwnership 6)]
      (constructor \<lparr>msg_sender = 1, block_timestamp = 0\<rparr>)) \<noteq> 0
 \<and> relayer (after (\<lparr>msg_sender = 6, block_timestamp = 3\<rparr>, SetRelayer 5 False) (run
      [(\<lparr>msg_sender = 1, block_timestamp = 1\<rparr>, SetRelayer 5 True),
       (\<lparr>msg_sender = 1, block_timestamp = 2\<rparr>, TransferOwnership 6)]
      (constructor \<lparr>msg_sender = 1, block_timestamp = 0\<rparr>))) \<noteq> 0
 \<and> owner (after (\<lparr>msg_sender = 6, block_timestamp = 3\<rparr>, TransferOwnership 0) (run
      [(\<lparr>msg_sender = 1, block_timestamp = 1\<rparr>, SetRelayer 5 True),
       (\<lparr>msg_sender = 1, block_timestamp = 2\<rparr>, TransferOwnership 6)]
      (constructor \<lparr>msg_sender = 1, block_timestamp = 0\<rparr>))) \<noteq> 0"
proof -
  have d: "msg_sender \<lparr>msg_sender = 1, block_timestamp = 0\<rparr> \<noteq> (0::address)"
    by simp
  from d roles_never_zero [OF d,
    of "[(\<lparr>msg_sender = 1, block_timestamp = 1\<rparr>, SetRelayer 5 True),
         (\<lparr>msg_sender = 1, block_timestamp = 2\<rparr>, TransferOwnership 6)]"
       "\<lparr>msg_sender = 6, block_timestamp = 3\<rparr>" 0 5 False]
  show ?thesis by blast
qed

subsection \<open>The all-zero hash\<close>

text \<open>
  C9. In every state reachable from the constructor, so also after records for hash 0
  were created, \<open>submitTxHash(0, s, a)\<close> with \<open>a > 0\<close> succeeds and writes a new Pending
  record into the slot of hash 0; \<open>getTransactionStatus(0)\<close> is NOT_FOUND right after
  it; and a second such submission right after the first succeeds as well, with no
  DuplicateError, and overwrites the record of the first.
\<close>

theorem zero_hash_edge:
  assumes "0 < a" and "0 < a'"
  shows "\<exists>st' st''. submitTxHash e 0 s a (run cs (constructor e0)) = Inr st'
     \<and> transactions st' 0 = \<lparr>txHash = 0, sender = s, amount = a,
          timestamp = block_timestamp e, status = Pending, reason = ''''\<rparr>
     \<and> getTransactionStatus st' 0 = ''NOT_FOUND''
     \<and> submitTxHash e' 0 s' a' st' = Inr st''
     \<and> transactions st'' 0 = \<lparr>txHash = 0, sender = s', amount = a',
          timestamp = block_timestamp e', status = Pending, reason = ''''\<rparr>
     \<and> getTransactionStatus st'' 0 = ''NOT_FOUND''"
  using assms zero_hash_reachable [of cs e0]
  by (simp add: submitTxHash_def getTransactionStatus_def)

text \<open>An instance: two submissions of hash 0 on the freshly deployed ledger.\<close>

theorem zero_hash_edge_witness:
  "(0::uint256) < 100 \<and> (0::uint256) < 200
 \<and> (\<exists>st' st''. submitTxHash \<lparr>msg_sender = 2, block_timestamp = 10\<rparr> 0 3 100
        (run [] (constructor \<lparr>msg_sender = 1, block_timestamp = 0\<rparr>)) = Inr st'
     \<and> getTransactionStatus st' 0 = ''NOT_FOUND''
     \<and> submitTxHash \<lparr>msg_sender = 4, block_timestamp = 20\<rparr> 0 5 200 st' = Inr st''
     \<and> amount (transactions st' 0) = 100
     \<and> amount (transactions st'' 0) = 200)"
proof -
  have a: "(0::uint256) < 100" by simp
  have b: "(0::uint256) < 200" by simp
  from zero_hash_edge [OF a b, of "\<lparr>msg_sender = 2, block_timestamp = 10\<rparr>" 3 "[]"
      "\<lparr>msg_sender = 1, block_timestamp = 0\<rparr>" "\<lparr>msg_sender = 4, block_timestamp = 20\<rparr>" 5]
  obtain st' st'' where
    "submitTxHash \<lparr>msg_sender = 2, block_timestamp = 10\<rparr> 0 3 100
        (run [] (constructor \<lparr>msg_sender = 1, block_timestamp = 0\<rparr>)) = Inr st'"
    "transactions st' 0 = \<lparr>txHash = 0, sender = 3, amount = 100,
        timestamp = block_timestamp \<lparr>msg_sender = 2, block_timestamp = 10\<rparr>,
        status = Pending, reason = ''''\<rparr>"
    "getTransactionStatus st' 0 = ''NOT_FOUND''"
    "submitTxHash \<lparr>msg_sender = 4, block_timestamp = 20\<rparr> 0 5 200 st' = Inr st''"
    "transactions st'' 0 = \<lparr>txHash = 0, sender = 5, amount = 200,
        timestamp = block_timestamp \<lparr>msg_sender = 4, block_timestamp = 20\<rparr>,
        status = Pending, reason = ''''\<rparr>"
    by blast
  then have "submitTxHash \<lparr>msg_sender = 2, block_timestamp = 10\<rparr> 0 3 100
        (run [] (constructor \<lparr>msg_sender = 1, block_timestamp = 0\<rparr>)) = Inr st'
     \<and> getTransactionStatus st' 0 = ''NOT_FOUND''
     \<and> submitTxHash \<lparr>msg_sender = 4, block_timestamp = 20\<rparr> 0 5 200 st' = Inr st''
     \<and> amount (transactions st' 0) = 100
     \<and> amount (transactions st'' 0) = 200"
    by simp
  with a b show ?thesis by blast
qed

subsection \<open>What a transfer of ownership leaves alone\<close>

text \<open>
  C10. \<open>transferOwnership(newOwner)\<close> changes nothing but the owner: the primary relayer,
  \<open>authorizedRelayers\<close>, the records and the event log are as before, whether the call
  succeeds or reverts, so every address has relayer rights after the call exactly if it
  had them before. A call by the owner with a nonzero address succeeds and only replaces
  the owner. On the freshly deployed ledger the deployer keeps its relayer rights after
  transferring the ownership, and no other address, so not the new owner either, has them.
\<close>

theorem transferOwnership_frame:
  "relayer (after (e, TransferOwnership n) st) = relayer st
 \<and> authorizedRelayers (after (e, TransferOwnership n) st) = authorizedRelayers st
 \<and> transactions (after (e, TransferOwnership n) st) = transactions st
 \<and> events (after (e, TransferOwnership n) st) = events st
 \<and> (onlyRelayer e' (after (e, TransferOwnership n) st) \<longleftrightarrow> onlyRelayer e' st)
 \<and> (msg_sender e = owner st \<and> n \<noteq> 0 \<longrightarrow>
      transferOwnership e n st = Inr (st\<lparr>owner := n\<rparr>)
    \<and> owner (after (e, TransferOwnership n) st) = n)
 \<and> (n \<noteq> 0 \<longrightarrow>
      owner (after (e0, TransferOwnership n) (constructor e0)) = n
    \<and> onlyRelayer e0 (after (e0, TransferOwnership n) (constructor e0))
    \<and> (msg_sender e' \<noteq> msg_sender e0 \<longrightarrow>
         \<not> onlyRelayer e' (after (e0, TransferOwnership n) (constructor e0))))"
  by (simp add: after_def transferOwnership_def onlyOwner_def onlyRelayer_def constructor_def)

text \<open>An instance: the deployer, address 1, transfers the ownership to address 6.\<close>

theorem transferOwnership_frame_witness:
  "msg_sender \<lparr>msg_sender = 1, block_timestamp = 0\<rparr>
     = owner (constructor \<lparr>msg_sender = 1, block_timestamp = 0\<rparr>)
 \<and> (6::address) \<noteq> 0
 \<and> msg_sender \<lparr>msg_sender = 6, block_timestamp = 9\<rparr>
     \<noteq> msg_sender \<lparr>msg_sender = 1, block_timestamp = 0\<rparr>
 \<and> owner (after (\<lparr>msg_sender = 1, block_timestamp = 0\<rparr>, TransferOwnership 6)
      (constructor \<lparr>msg_sender = 1, block_timestamp = 0\<rparr>)) = 6
 \<and> relayer (after (\<lparr>msg_sender = 1, block_timestamp = 0\<rparr>, TransferOwnership 6)
      (constructor \<lparr>msg_sender = 1, block_timestamp = 0\<rparr>))
     = relayer (constructor \<lparr>msg_sender = 1, block_timestamp = 0\<rparr>)
 \<and> onlyRelayer \<lparr>msg_sender = 1, block_timestamp = 0\<rparr>
      (after (\<lparr>msg_sender = 1, block_timestamp = 0\<rparr>, TransferOwnership 6)
        (constructor \<lparr>msg_sender = 1, block_timestamp = 0\<rparr>))
 \<and> \<not> onlyRelayer \<lparr>msg_sender = 6, block_timestamp = 9\<rparr>
      (after (\<lparr>msg_sender = 1, block_timestamp = 0\<rparr>, TransferOwnership 6)
        (constructor \<lparr>msg_sender = 1, block_timestamp = 0\<rparr>))"
proof -
  let ?e0 = "\<lparr>msg_sender = 1, block_timestamp = 0\<rparr>"
  have o: "msg_sender ?e0 = owner (constructor ?e0)"
    by (simp add: constructor_def)
  have n: "(6::address) \<noteq> 0"
    by simp
  have d: "msg_sender \<lparr>msg_sender = 6, block_timestamp = 9\<rparr> \<noteq> msg_sender ?e0"
    by simp
  from o n d transferOwnership_frame [of ?e0 6 "constructor ?e0"
      "\<lparr>msg_sender = 6, block_timestamp = 9\<rparr>" ?e0]
  show ?thesis by blast
qed

end
